theory Spec2Isabelle
  imports Main "HOL-Library.Word"
begin

section \<open>The opcode catalog (src/ir.h, enum class Opcode)\<close>

text \<open>
  The enumeration of ir.h, in the order of the header. Two enumerators are renamed,
  because \<open>MIN\<close> and \<open>MAX\<close> are reserved words of the term syntax of HOL:
  \<open>Opcode::MIN\<close> is \<open>MIN'\<close> and \<open>Opcode::MAX\<close> is \<open>MAX'\<close>.
\<close>

datatype Opcode =
    \<comment> \<open>utilities\<close>
    NOP | PHI | MOV | CMOV
    \<comment> \<open>branch targets\<close>
  | JTARG | JLOOP | JFOR
    \<comment> \<open>branching\<close>
  | JUMP | JT | JF
    \<comment> \<open>assertions\<close>
  | ASSERT | ATYPE
    \<comment> \<open>predicates\<close>
  | EQ | NEQ | IN | NIN | LT | GEQ | GT | LEQ
    \<comment> \<open>boolean operations\<close>
  | AND | NOT2 | OR | XOR | NOT | BOOL
    \<comment> \<open>function calls\<close>
  | SARG | CALL | RET | RETV | TCALL
    \<comment> \<open>constants\<close>
  | INTK | STRK | BOOLK | TYPEK
    \<comment> \<open>arithmetic operations\<close>
  | ADD | SUB | MUL | FDIV | MOD | POW | DIV | MIN' | MAX' | NEG | ABS | FLOOR | CEIL
    \<comment> \<open>bitwise operations\<close>
  | BITAND | BITOR | BITXOR | BITANOT | BITSHR | BITSHL | BITNOT
    \<comment> \<open>string operations\<close>
  | CAT | FMT
    \<comment> \<open>indexing operations\<close>
  | GETI | SETI | DELI
    \<comment> \<open>collection operations\<close>
  | LEN

section \<open>The arity switch (op_arity)\<close>

text \<open>
  \<open>int op_arity(Opcode op)\<close>: one switch, three groups of case labels and a default
  that returns 2. The result type is the \<open>int\<close> of the source.
\<close>

definition op_arity :: "Opcode \<Rightarrow> int" where
  "op_arity op =
     (case op of
        NOP \<Rightarrow> 0
      | JTARG \<Rightarrow> 0
      | JLOOP \<Rightarrow> 0
      | SARG \<Rightarrow> 0
      | RETV \<Rightarrow> 0
      | MOV \<Rightarrow> 1
      | JUMP \<Rightarrow> 1
      | ASSERT \<Rightarrow> 1
      | NOT \<Rightarrow> 1
      | BOOL \<Rightarrow> 1
      | RET \<Rightarrow> 1
      | INTK \<Rightarrow> 1
      | STRK \<Rightarrow> 1
      | BOOLK \<Rightarrow> 1
      | TYPEK \<Rightarrow> 1
      | NEG \<Rightarrow> 1
      | ABS \<Rightarrow> 1
      | FLOOR \<Rightarrow> 1
      | CEIL \<Rightarrow> 1
      | BITNOT \<Rightarrow> 1
      | LEN \<Rightarrow> 1
      | CMOV \<Rightarrow> 3
      | JFOR \<Rightarrow> 3
      | SETI \<Rightarrow> 3
      | _ \<Rightarrow> 2)"

section \<open>Branch classifiers (src/ir.h, inline)\<close>

definition op_is_cond_branch :: "Opcode \<Rightarrow> bool" where
  "op_is_cond_branch op = (op = JT \<or> op = JF \<or> op = JFOR)"

definition op_is_uncond_branch :: "Opcode \<Rightarrow> bool" where
  "op_is_uncond_branch op = (op = JUMP)"

section \<open>Instructions (src/ir.h, struct Instruction)\<close>

text \<open>
  \<open>Opcode op; uint16_t arg[3];\<close> The array of three slots is a list, which every
  constructor fills with exactly three elements.
\<close>

record Instruction =
  op :: Opcode
  arg :: "16 word list"

text \<open>
  The only failure of this layer: an \<open>assert\<close> that does not hold aborts the program
  (the Makefile's flags do not define \<open>NDEBUG\<close>, so the assertions are compiled in).
\<close>

datatype error = AssertionFailed

text \<open>
  The four overloaded constructors, named by their operand count. Each initialises the
  members and then asserts \<open>op_arity(op_) == k\<close>; the parameter \<open>op_\<close> is \<open>op'\<close> here.
\<close>

definition Instruction0 :: "Opcode \<Rightarrow> error + Instruction" where
  "Instruction0 op' =
     (let this = \<lparr>op = op', arg = [0, 0, 0]\<rparr>
      in if op_arity op' = 0 then Inr this else Inl AssertionFailed)"

definition Instruction1 :: "Opcode \<Rightarrow> 16 word \<Rightarrow> error + Instruction" where
  "Instruction1 op' arg0 =
     (let this = \<lparr>op = op', arg = [arg0, 0, 0]\<rparr>
      in if op_arity op' = 1 then Inr this else Inl AssertionFailed)"

definition Instruction2 :: "Opcode \<Rightarrow> 16 word \<Rightarrow> 16 word \<Rightarrow> error + Instruction" where
  "Instruction2 op' arg0 arg1 =
     (let this = \<lparr>op = op', arg = [arg0, arg1, 0]\<rparr>
      in if op_arity op' = 2 then Inr this else Inl AssertionFailed)"

definition Instruction3 ::
  "Opcode \<Rightarrow> 16 word \<Rightarrow> 16 word \<Rightarrow> 16 word \<Rightarrow> error + Instruction" where
  "Instruction3 op' arg0 arg1 arg2 =
     (let this = \<lparr>op = op', arg = [arg0, arg1, arg2]\<rparr>
      in if op_arity op' = 3 then Inr this else Inl AssertionFailed)"

section \<open>Functions (src/ir.h, struct Function)\<close>

text \<open>
  \<open>int\<close> and \<open>int32_t\<close> are 32-bit words (read as signed with \<open>sint\<close>),
  \<open>std::string\<close> is \<open>string\<close>, each \<open>std::vector\<close> is a list.
\<close>

record Function =
  num_pos_args :: "32 word"
  num_upvalues :: "32 word"
  strk_table :: "string list"
  intk_table :: "32 word list"
  "text" :: "Instruction list"

text \<open>
  The builder surface is \<open>push_back\<close> on the three vectors: \<open>func.text.push_back(i)\<close>,
  \<open>func.intk_table.push_back(n)\<close>, \<open>func.strk_table.push_back(s)\<close>. The function is
  passed in and returned updated.
\<close>

definition text_push_back :: "Function \<Rightarrow> Instruction \<Rightarrow> Function" where
  "text_push_back func ins = func\<lparr>text := text func @ [ins]\<rparr>"

definition intk_table_push_back :: "Function \<Rightarrow> 32 word \<Rightarrow> Function" where
  "intk_table_push_back func n = func\<lparr>intk_table := intk_table func @ [n]\<rparr>"

definition strk_table_push_back :: "Function \<Rightarrow> string \<Rightarrow> Function" where
  "strk_table_push_back func s = func\<lparr>strk_table := strk_table func @ [s]\<rparr>"

section \<open>The demo program (src/main.cc)\<close>

text \<open>
  \<open>main\<close> builds \<open>func\<close> statement by statement and returns 0. The model returns the
  \<open>func\<close> that exists at the \<open>return\<close>, or the failed assertion of the first
  constructor call that aborts. The first \<open>let\<close> is the default-constructed \<open>func\<close>
  (three empty vectors) after the two assignments of 0.
\<close>

definition main :: "error + Function" where
  "main =
     (let func = \<lparr>num_pos_args = 0, num_upvalues = 0,
                  strk_table = [], intk_table = [], text = []\<rparr>;
          func = intk_table_push_back func 1
      in (case Instruction1 INTK 0 of Inl e \<Rightarrow> Inl e | Inr i \<Rightarrow>
      (let func = text_push_back func i
      in (case Instruction2 ADD 0 0 of Inl e \<Rightarrow> Inl e | Inr i \<Rightarrow>
      (let func = text_push_back func i;
           func = intk_table_push_back func 2
      in (case Instruction1 INTK 1 of Inl e \<Rightarrow> Inl e | Inr i \<Rightarrow>
      (let func = text_push_back func i
      in (case Instruction2 EQ 2 3 of Inl e \<Rightarrow> Inl e | Inr i \<Rightarrow>
      (let func = text_push_back func i
      in (case Instruction1 ASSERT 4 of Inl e \<Rightarrow> Inl e | Inr i \<Rightarrow>
      (let func = text_push_back func i
      in (case Instruction1 RET 2 of Inl e \<Rightarrow> Inl e | Inr i \<Rightarrow>
      (let func = text_push_back func i
      in Inr func)))))))))))))"

section \<open>Theorems\<close>

subsection \<open>The arity switch\<close>

text \<open>
  C1. For every opcode of the catalog, \<open>op_arity\<close> returns the value of the partition:
  0 exactly on NOP, JTARG, JLOOP, SARG, RETV; 1 exactly on MOV, JUMP, ASSERT, NOT, BOOL,
  RET, INTK, STRK, BOOLK, TYPEK, NEG, ABS, FLOOR, CEIL, BITNOT, LEN; 3 exactly on CMOV,
  JFOR, SETI; and 2 exactly on every other opcode, which are listed one by one (PHI, JT,
  JF, ATYPE, CALL, TCALL, GETI, DELI, IN, NIN, and the binary predicate, boolean,
  arithmetic, bitwise and string operations).
\<close>

theorem op_arity_partition:
  "(op_arity opc = 0 \<longleftrightarrow> opc \<in> {NOP, JTARG, JLOOP, SARG, RETV}) \<and>
   (op_arity opc = 1 \<longleftrightarrow>
      opc \<in> {MOV, JUMP, ASSERT, NOT, BOOL, RET, INTK, STRK, BOOLK, TYPEK,
             NEG, ABS, FLOOR, CEIL, BITNOT, LEN}) \<and>
   (op_arity opc = 3 \<longleftrightarrow> opc \<in> {CMOV, JFOR, SETI}) \<and>
   (op_arity opc = 2 \<longleftrightarrow>
      opc \<in> {PHI, JT, JF, ATYPE, CALL, TCALL, GETI, DELI, IN, NIN,
             EQ, NEQ, LT, GEQ, GT, LEQ,
             AND, NOT2, OR, XOR,
             ADD, SUB, MUL, FDIV, MOD, POW, DIV, MIN', MAX',
             BITAND, BITOR, BITXOR, BITANOT, BITSHR, BITSHL,
             CAT, FMT})"
  by (cases opc) (simp_all add: op_arity_def)

text \<open>
  C6. \<open>op_arity\<close> is total and deterministic on the catalog: for every opcode it returns
  a value, that value is one of 0, 1, 2, 3, and it is the only value the call can return
  (the switch reads nothing but its argument and has a default, so every path returns).
\<close>

theorem op_arity_total_deterministic:
  "op_arity opc \<in> {0, 1, 2, 3} \<and> (\<exists>!k. k \<in> {0, 1, 2, 3} \<and> op_arity opc = k)"
proof -
  have range: "op_arity opc \<in> {0, 1, 2, 3}"
    by (cases opc) (simp_all add: op_arity_def)
  have "\<exists>!k. k \<in> {0, 1, 2, 3} \<and> op_arity opc = k"
  proof (rule ex1I)
    show "op_arity opc \<in> {0, 1, 2, 3} \<and> op_arity opc = op_arity opc"
      using range by simp
  next
    fix k
    assume "k \<in> {0, 1, 2, 3} \<and> op_arity opc = k"
    then show "k = op_arity opc" by simp
  qed
  with range show ?thesis ..
qed

subsection \<open>Branch classifiers\<close>

text \<open>
  C3. \<open>op_is_cond_branch\<close> is true exactly on JT, JF and JFOR, \<open>op_is_uncond_branch\<close>
  is true exactly on JUMP; no opcode satisfies both, one of them holds exactly on
  JUMP, JT, JF, JFOR, and JFOR is conditional and not unconditional.
\<close>

theorem branch_classifiers_partition:
  "(op_is_cond_branch opc \<longleftrightarrow> opc \<in> {JT, JF, JFOR}) \<and>
   (op_is_uncond_branch opc \<longleftrightarrow> opc = JUMP) \<and>
   \<not> (op_is_cond_branch opc \<and> op_is_uncond_branch opc) \<and>
   ((op_is_cond_branch opc \<or> op_is_uncond_branch opc) \<longleftrightarrow> opc \<in> {JUMP, JT, JF, JFOR}) \<and>
   op_is_cond_branch JFOR \<and> \<not> op_is_uncond_branch JFOR"
  by (auto simp: op_is_cond_branch_def op_is_uncond_branch_def)

subsection \<open>Instruction construction\<close>

text \<open>
  C2. For every opcode and each of the four constructors (0, 1, 2 or 3 operands), the
  constructor succeeds if and only if \<open>op_arity\<close> of the opcode equals its operand
  count, and with any other count it fails the construction-time assertion.
\<close>

theorem Instruction_succeeds_iff_arity:
  "((\<exists>ins. Instruction0 opc = Inr ins) \<longleftrightarrow> op_arity opc = 0) \<and>
   ((\<exists>ins. Instruction1 opc a0 = Inr ins) \<longleftrightarrow> op_arity opc = 1) \<and>
   ((\<exists>ins. Instruction2 opc a0 a1 = Inr ins) \<longleftrightarrow> op_arity opc = 2) \<and>
   ((\<exists>ins. Instruction3 opc a0 a1 a2 = Inr ins) \<longleftrightarrow> op_arity opc = 3) \<and>
   (Instruction0 opc = Inl AssertionFailed \<longleftrightarrow> op_arity opc \<noteq> 0) \<and>
   (Instruction1 opc a0 = Inl AssertionFailed \<longleftrightarrow> op_arity opc \<noteq> 1) \<and>
   (Instruction2 opc a0 a1 = Inl AssertionFailed \<longleftrightarrow> op_arity opc \<noteq> 2) \<and>
   (Instruction3 opc a0 a1 a2 = Inl AssertionFailed \<longleftrightarrow> op_arity opc \<noteq> 3)"
  by (simp add: Instruction0_def Instruction1_def Instruction2_def Instruction3_def)

text \<open>
  C8. An instruction built by any of the four constructors has every slot beyond its
  operands equal to zero: for an opcode of arity \<open>k\<close>, the constructor with \<open>k\<close> operands
  returns an instruction with three slots whose slot \<open>j\<close> is 0 for every \<open>j\<close> with
  \<open>k \<le> j < 3\<close>.
\<close>

theorem Instruction_unused_slots_zero:
  "(op_arity opc = 0 \<longrightarrow>
      (\<exists>ins. Instruction0 opc = Inr ins \<and> length (arg ins) = 3 \<and>
             (\<forall>j. 0 \<le> j \<and> j < 3 \<longrightarrow> arg ins ! j = 0))) \<and>
   (op_arity opc = 1 \<longrightarrow>
      (\<exists>ins. Instruction1 opc a0 = Inr ins \<and> length (arg ins) = 3 \<and>
             (\<forall>j. 1 \<le> j \<and> j < 3 \<longrightarrow> arg ins ! j = 0))) \<and>
   (op_arity opc = 2 \<longrightarrow>
      (\<exists>ins. Instruction2 opc a0 a1 = Inr ins \<and> length (arg ins) = 3 \<and>
             (\<forall>j. 2 \<le> j \<and> j < 3 \<longrightarrow> arg ins ! j = 0))) \<and>
   (op_arity opc = 3 \<longrightarrow>
      (\<exists>ins. Instruction3 opc a0 a1 a2 = Inr ins \<and> length (arg ins) = 3 \<and>
             (\<forall>j. 3 \<le> j \<and> j < 3 \<longrightarrow> arg ins ! j = 0)))"
  by (auto simp: Instruction0_def Instruction1_def Instruction2_def Instruction3_def
      nth_Cons' less_Suc_eq numeral_3_eq_3)

theorem Instruction_unused_slots_zero_witness:
  "(op_arity NOP = 0 \<and>
      (\<exists>ins. Instruction0 NOP = Inr ins \<and> arg ins ! 0 = 0 \<and> arg ins ! 1 = 0 \<and> arg ins ! 2 = 0)) \<and>
   (op_arity INTK = 1 \<and>
      (\<exists>ins. Instruction1 INTK 7 = Inr ins \<and> arg ins ! 1 = 0 \<and> arg ins ! 2 = 0)) \<and>
   (op_arity ADD = 2 \<and>
      (\<exists>ins. Instruction2 ADD 7 8 = Inr ins \<and> arg ins ! 2 = 0)) \<and>
   (op_arity SETI = 3 \<and>
      (\<exists>ins. Instruction3 SETI 7 8 9 = Inr ins \<and> length (arg ins) = 3))"
proof -
  have a0: "op_arity NOP = 0" and a1: "op_arity INTK = 1"
    and a2: "op_arity ADD = 2" and a3: "op_arity SETI = 3"
    by (simp_all add: op_arity_def)
  from a0 Instruction_unused_slots_zero [of NOP]
  have "\<exists>ins. Instruction0 NOP = Inr ins \<and> arg ins ! 0 = 0 \<and> arg ins ! 1 = 0 \<and> arg ins ! 2 = 0"
    by auto
  moreover from a1 Instruction_unused_slots_zero [of INTK 7]
  have "\<exists>ins. Instruction1 INTK 7 = Inr ins \<and> arg ins ! 1 = 0 \<and> arg ins ! 2 = 0"
    by auto
  moreover from a2 Instruction_unused_slots_zero [of ADD 7 8]
  have "\<exists>ins. Instruction2 ADD 7 8 = Inr ins \<and> arg ins ! 2 = 0"
    by auto
  moreover from a3 Instruction_unused_slots_zero [of SETI 7 8 9]
  have "\<exists>ins. Instruction3 SETI 7 8 9 = Inr ins \<and> length (arg ins) = 3"
    by auto
  ultimately show ?thesis
    using a0 a1 a2 a3 by simp
qed

text \<open>
  C9. The constructors store their arguments as given: for an opcode of arity \<open>k\<close>, the
  constructor with operands \<open>a0 .. a(k-1)\<close> returns an instruction whose \<open>op\<close> is the
  opcode and whose slot \<open>j\<close> is \<open>aj\<close> for every \<open>j < k\<close>.
\<close>

theorem Instruction_stores_arguments:
  "(op_arity opc = 0 \<longrightarrow>
      (\<exists>ins. Instruction0 opc = Inr ins \<and> op ins = opc)) \<and>
   (op_arity opc = 1 \<longrightarrow>
      (\<exists>ins. Instruction1 opc a0 = Inr ins \<and> op ins = opc \<and> arg ins ! 0 = a0)) \<and>
   (op_arity opc = 2 \<longrightarrow>
      (\<exists>ins. Instruction2 opc a0 a1 = Inr ins \<and> op ins = opc \<and>
             arg ins ! 0 = a0 \<and> arg ins ! 1 = a1)) \<and>
   (op_arity opc = 3 \<longrightarrow>
      (\<exists>ins. Instruction3 opc a0 a1 a2 = Inr ins \<and> op ins = opc \<and>
             arg ins ! 0 = a0 \<and> arg ins ! 1 = a1 \<and> arg ins ! 2 = a2))"
  by (simp add: Instruction0_def Instruction1_def Instruction2_def Instruction3_def)

theorem Instruction_stores_arguments_witness:
  "(op_arity RETV = 0 \<and> (\<exists>ins. Instruction0 RETV = Inr ins \<and> op ins = RETV)) \<and>
   (op_arity STRK = 1 \<and>
      (\<exists>ins. Instruction1 STRK 65535 = Inr ins \<and> op ins = STRK \<and> arg ins ! 0 = 65535)) \<and>
   (op_arity EQ = 2 \<and>
      (\<exists>ins. Instruction2 EQ 2 3 = Inr ins \<and> op ins = EQ \<and>
             arg ins ! 0 = 2 \<and> arg ins ! 1 = 3)) \<and>
   (op_arity CMOV = 3 \<and>
      (\<exists>ins. Instruction3 CMOV 3 2 1 = Inr ins \<and> op ins = CMOV \<and>
             arg ins ! 0 = 3 \<and> arg ins ! 1 = 2 \<and> arg ins ! 2 = 1))"
proof -
  have a0: "op_arity RETV = 0" and a1: "op_arity STRK = 1"
    and a2: "op_arity EQ = 2" and a3: "op_arity CMOV = 3"
    by (simp_all add: op_arity_def)
  from a0 Instruction_stores_arguments [of RETV]
  have "\<exists>ins. Instruction0 RETV = Inr ins \<and> op ins = RETV"
    by blast
  moreover from a1 Instruction_stores_arguments [of STRK 65535]
  have "\<exists>ins. Instruction1 STRK 65535 = Inr ins \<and> op ins = STRK \<and> arg ins ! 0 = 65535"
    by blast
  moreover from a2 Instruction_stores_arguments [of EQ 2 3]
  have "\<exists>ins. Instruction2 EQ 2 3 = Inr ins \<and> op ins = EQ \<and> arg ins ! 0 = 2 \<and> arg ins ! 1 = 3"
    by blast
  moreover from a3 Instruction_stores_arguments [of CMOV 3 2 1]
  have "\<exists>ins. Instruction3 CMOV 3 2 1 = Inr ins \<and> op ins = CMOV \<and>
          arg ins ! 0 = 3 \<and> arg ins ! 1 = 2 \<and> arg ins ! 2 = 1"
    by blast
  ultimately show ?thesis
    using a0 a1 a2 a3 by simp
qed

subsection \<open>Building a function\<close>

text \<open>
  C7. Neither \<open>Instruction\<close> nor \<open>Function\<close> checks a constant-pool index: for every
  16-bit index \<open>i\<close> and every function, whatever the lengths of its constant tables (so
  also when \<open>i\<close> is beyond them), \<open>Instruction(STRK, i)\<close> and \<open>Instruction(INTK, i)\<close> are
  constructed with \<open>i\<close> in slot 0, and appending either to \<open>text\<close> gives the old
  \<open>text\<close> followed by that instruction. The last two conjuncts are the out-of-range
  case itself: index 65535 with both tables empty.
\<close>

theorem constant_index_not_checked:
  "(\<exists>ins. Instruction1 STRK i = Inr ins \<and> op ins = STRK \<and> arg ins = [i, 0, 0] \<and>
          text (text_push_back func ins) = text func @ [ins] \<and>
          strk_table (text_push_back func ins) = strk_table func) \<and>
   (\<exists>ins. Instruction1 INTK i = Inr ins \<and> op ins = INTK \<and> arg ins = [i, 0, 0] \<and>
          text (text_push_back func ins) = text func @ [ins] \<and>
          intk_table (text_push_back func ins) = intk_table func) \<and>
   (\<exists>ins. Instruction1 STRK 65535 = Inr ins \<and>
          text (text_push_back (func\<lparr>strk_table := [], text := []\<rparr>) ins) = [ins]) \<and>
   (\<exists>ins. Instruction1 INTK 65535 = Inr ins \<and>
          text (text_push_back (func\<lparr>intk_table := [], text := []\<rparr>) ins) = [ins])"
  by (simp add: Instruction1_def op_arity_def text_push_back_def)

text \<open>
  C4. The demo program runs to its \<open>return\<close> (no assertion fails) and the function it
  has built has a \<open>text\<close> of length 6 whose opcodes are INTK, ADD, INTK, EQ, ASSERT, RET
  in this order, \<open>intk_table\<close> equal to [1, 2] and an empty \<open>strk_table\<close>.
\<close>

theorem main_builds_demo_function:
  "\<exists>func. main = Inr func \<and>
          length (text func) = 6 \<and>
          map op (text func) = [INTK, ADD, INTK, EQ, ASSERT, RET] \<and>
          intk_table func = [1, 2] \<and>
          strk_table func = []"
  by (simp add: main_def Instruction1_def Instruction2_def op_arity_def
      text_push_back_def intk_table_push_back_def)

text \<open>
  C10. Each append touches only its own vector: appending an instruction to \<open>text\<close>
  leaves \<open>strk_table\<close>, \<open>intk_table\<close>, \<open>num_pos_args\<close> and \<open>num_upvalues\<close> as they
  were; appending to \<open>intk_table\<close> leaves \<open>text\<close>, \<open>strk_table\<close> and the two counts as
  they were; appending to \<open>strk_table\<close> leaves \<open>text\<close>, \<open>intk_table\<close> and the two counts
  as they were. The vector appended to is the old one followed by the new element.
\<close>

theorem push_back_frame:
  "(strk_table (text_push_back func ins) = strk_table func \<and>
    intk_table (text_push_back func ins) = intk_table func \<and>
    num_pos_args (text_push_back func ins) = num_pos_args func \<and>
    num_upvalues (text_push_back func ins) = num_upvalues func \<and>
    text (text_push_back func ins) = text func @ [ins]) \<and>
   (text (intk_table_push_back func n) = text func \<and>
    strk_table (intk_table_push_back func n) = strk_table func \<and>
    num_pos_args (intk_table_push_back func n) = num_pos_args func \<and>
    num_upvalues (intk_table_push_back func n) = num_upvalues func \<and>
    intk_table (intk_table_push_back func n) = intk_table func @ [n]) \<and>
   (text (strk_table_push_back func s) = text func \<and>
    intk_table (strk_table_push_back func s) = intk_table func \<and>
    num_pos_args (strk_table_push_back func s) = num_pos_args func \<and>
    num_upvalues (strk_table_push_back func s) = num_upvalues func \<and>
    strk_table (strk_table_push_back func s) = strk_table func @ [s])"
  by (simp add: text_push_back_def intk_table_push_back_def strk_table_push_back_def)

end
